theory Spec2Isabelle
  imports Complex_Main "HOL-Library.Sublist"
begin

section \<open>The transaction categorizer of IntelliFinance\<close>

text \<open>
  A shallow embedding of \<^verbatim>\<open>backend/app/ml/transaction_categorizer.py\<close>: the class
  \<^verbatim>\<open>TransactionCategorizer\<close> (preprocessing, training, prediction, persistence), the
  class \<^verbatim>\<open>HuggingFaceCategorizer\<close> and the module function
  \<^verbatim>\<open>categorize_transaction\<close> with its two module globals.

  Conventions.
  \<^item> Python strings are \<open>string\<close>; the model covers ASCII text (\<^verbatim>\<open>lower\<close> and
    \<^verbatim>\<open>strip\<close> are modelled on the ASCII range, other characters are left alone).
  \<^item> A confidence is a \<open>real\<close>: the code only compares confidences (\<^verbatim>\<open>></\<close>,
    \<^verbatim>\<open>max\<close>), and comparison of floats is exact on the values they denote. The
    literals \<^verbatim>\<open>0.7\<close> and \<^verbatim>\<open>0.5\<close> are the reals \<open>7/10\<close> and \<open>1/2\<close>.
    A confidence that is not a number is outside the model.
  \<^item> Every raise is a value of type \<open>exn\<close>; a function that can raise returns
    \<open>exn + 'a\<close>, and one that also mutates returns the new state beside it.
  \<^item> scikit-learn, transformers and pickle are not code of this repository: their
    operations are the fields of a record \<open>libs\<close> that every function takes as its first
    argument. An exception raised inside one of them is a \<open>lib_error\<close> (its message)
    and reaches the repository code as \<open>LibraryError\<close>.
  \<^item> \<^verbatim>\<open>print\<close> is not modelled.
\<close>

subsection \<open>Exceptions\<close>

type_synonym lib_error = string

datatype exn =
    ValueError string
  | IndexError
  | FileNotFoundError
  | IsADirectoryError
  | EOFError
  | KeyError string
  | LibraryError lib_error

definition lift_lib :: "lib_error + 'a \<Rightarrow> exn + 'a" where
  "lift_lib r = (case r of Inl e \<Rightarrow> Inl (LibraryError e) | Inr x \<Rightarrow> Inr x)"

subsection \<open>Python string operations\<close>

definition py_lower_char :: "char \<Rightarrow> char" where
  "py_lower_char c =
     (case map_of (zip ''ABCDEFGHIJKLMNOPQRSTUVWXYZ'' ''abcdefghijklmnopqrstuvwxyz'') c of
        Some l \<Rightarrow> l
      | None \<Rightarrow> c)"

definition py_lower :: "string \<Rightarrow> string" where
  "py_lower s = map py_lower_char s"

text \<open>The ASCII characters for which \<^verbatim>\<open>str.isspace\<close> holds: 9 to 13 and 28 to 32.\<close>

definition py_isspace :: "char \<Rightarrow> bool" where
  "py_isspace c =
     (c \<in> set [CHR 0x09, CHR 0x0A, CHR 0x0B, CHR 0x0C, CHR 0x0D,
                 CHR 0x1C, CHR 0x1D, CHR 0x1E, CHR 0x1F, CHR 0x20])"

definition py_strip :: "string \<Rightarrow> string" where
  "py_strip s = rev (dropWhile py_isspace (rev (dropWhile py_isspace s)))"

text \<open>
  \<^verbatim>\<open>s.replace(old, new)\<close>: the non-overlapping occurrences of \<open>old\<close>, found from the
  left, are replaced. An empty \<open>old\<close> matches before every character and at the end.
\<close>

function replace_nonempty :: "string \<Rightarrow> string \<Rightarrow> string \<Rightarrow> string" where
  "replace_nonempty old new [] = []"
| "replace_nonempty old new (c # cs) =
     (if old \<noteq> [] \<and> prefix old (c # cs)
      then new @ replace_nonempty old new (drop (length old) (c # cs))
      else c # replace_nonempty old new cs)"
  by pat_completeness auto
termination
  by (relation "measure (\<lambda>(old, new, s). length s)") (auto simp: neq_Nil_conv)

definition py_replace :: "string \<Rightarrow> string \<Rightarrow> string \<Rightarrow> string" where
  "py_replace old new s =
     (if old = [] then new @ concat (map (\<lambda>c. c # new) s) else replace_nonempty old new s)"

text \<open>Truthiness of an optional string: \<^verbatim>\<open>None\<close> and \<^verbatim>\<open>""\<close> are false.\<close>

fun truthy :: "string option \<Rightarrow> bool" where
  "truthy None = False"
| "truthy (Some s) = (s \<noteq> [])"

subsection \<open>\<^verbatim>\<open>TransactionCategorizer.preprocess_text\<close>\<close>

definition remove_terms :: "string list" where
  "remove_terms =
     [''payment'', ''purchase'', ''transaction'', ''debit'', ''credit'',
      ''pos'', ''atm'', ''withdrawal'', ''deposit'', ''transfer'']"

definition preprocess_text :: "string \<Rightarrow> string option \<Rightarrow> string" where
  "preprocess_text description merchant =
     (let text = py_strip (py_lower description);
          text = (if truthy merchant
                  then text @ '' '' @ py_strip (py_lower (the merchant))
                  else text);
          text = fold (\<lambda>trm text. py_replace trm '''' text) remove_terms text
      in py_strip text)"

subsection \<open>The preprocessing of the specification\<close>

text \<open>
  The reference function, written from the words of the specification: lowercase and strip
  the description, append the lowercased and stripped merchant name after a space when a
  merchant is present, delete every occurrence of a stop-term as a literal substring and
  nothing else, strip. It takes the stop-list as an argument; \<open>spec_stop_terms\<close> is the
  list the specification gives.

  An occurrence of a stop-term is a place where the text continues with that term.
  \<open>match_len ts s\<close> is the length of the longest term of \<open>ts\<close> that \<open>s\<close> starts with
  (0 if there is none). \<open>delete_covered ts k s\<close> walks along \<open>s\<close>, \<open>k\<close> being the number
  of coming characters that an occurrence begun earlier still covers, and drops exactly
  the characters that lie inside some occurrence. The order of the list plays no part.
\<close>

definition match_len :: "string list \<Rightarrow> string \<Rightarrow> nat" where
  "match_len ts s = foldr (\<lambda>t n. if prefix t s then max (length t) n else n) ts 0"

fun delete_covered :: "string list \<Rightarrow> nat \<Rightarrow> string \<Rightarrow> string" where
  "delete_covered ts k [] = []"
| "delete_covered ts k (c # cs) =
     (let k' = max k (match_len ts (c # cs))
      in if k' = 0 then c # delete_covered ts 0 cs else delete_covered ts (k' - 1) cs)"

definition delete_occurrences :: "string list \<Rightarrow> string \<Rightarrow> string" where
  "delete_occurrences ts s = delete_covered ts 0 s"

definition spec_stop_terms :: "string list" where
  "spec_stop_terms =
     [''payment'', ''purchase'', ''debit'', ''credit'',
      ''pos'', ''atm'', ''withdrawal'', ''deposit'', ''transfer'']"

definition joined_text :: "string \<Rightarrow> string option \<Rightarrow> string" where
  "joined_text description merchant =
     (case merchant of
        None \<Rightarrow> py_strip (py_lower description)
      | Some m \<Rightarrow>
          if m = [] then py_strip (py_lower description)
          else py_strip (py_lower description) @ '' '' @ py_strip (py_lower m))"

definition preprocess_reference :: "string list \<Rightarrow> string \<Rightarrow> string option \<Rightarrow> string" where
  "preprocess_reference stop description merchant =
     py_strip (delete_occurrences stop (joined_text description merchant))"

text \<open>
  Texts whose stop-term occurrences stand apart. A guard is a character that occurs in
  no stop-term; the guards cut the text into runs. A run is isolated if it holds no
  occurrence of a stop-term, or exactly one and none once that one is taken out.
  \<open>occurrences ts w\<close> lists the occurrences in \<open>w\<close> as pairs of position and term.
\<close>

definition occurrences :: "string list \<Rightarrow> string \<Rightarrow> (nat \<times> string) list" where
  "occurrences ts w =
     concat (map (\<lambda>j. map (\<lambda>t. (j, t)) (filter (\<lambda>t. prefix t (drop j w)) ts))
       [0..<length w])"

definition isolated :: "string list \<Rightarrow> string \<Rightarrow> bool" where
  "isolated ts w =
     (case occurrences ts w of
        [] \<Rightarrow> True
      | [(j, t)] \<Rightarrow> occurrences ts (take j w @ drop (j + length t) w) = []
      | _ \<Rightarrow> False)"

definition guard :: "string list \<Rightarrow> char \<Rightarrow> bool" where
  "guard ts c = (c \<notin> set (concat ts))"

fun apart_from :: "string list \<Rightarrow> string \<Rightarrow> string \<Rightarrow> bool" where
  "apart_from ts run [] = isolated ts run"
| "apart_from ts run (c # cs) =
     (if guard ts c then isolated ts run \<and> apart_from ts [] cs
      else apart_from ts (run @ [c]) cs)"

definition stand_apart :: "string list \<Rightarrow> string \<Rightarrow> bool" where
  "stand_apart ts s = apart_from ts [] s"


subsection \<open>The category enumeration\<close>

text \<open>
  \<^verbatim>\<open>app/models/transaction.py\<close>, which declares the enumeration
  \<^verbatim>\<open>TransactionCategory\<close>, is not among the sources, so the enumeration is a
  parameter: \<open>enum_values\<close> is \<^verbatim>\<open>[category.value for category in TransactionCategory]\<close>
  and each other field is the \<^verbatim>\<open>.value\<close> of the member of that name (the twelve
  members the categorizer names). \<open>wf_enum\<close> says that these twelve are members.
\<close>

record TransactionCategory =
  enum_values :: "string list"
  GROCERIES :: string
  RESTAURANTS :: string
  GAS :: string
  GENERAL_MERCHANDISE :: string
  UTILITIES :: string
  MOVIES :: string
  MEDICAL :: string
  BANK_FEES :: string
  TRAVEL :: string
  EDUCATION :: string
  CHARITY :: string
  UNCATEGORIZED :: string

definition named_members :: "TransactionCategory \<Rightarrow> string list" where
  "named_members E =
     [GROCERIES E, RESTAURANTS E, GAS E, GENERAL_MERCHANDISE E, UTILITIES E, MOVIES E,
      MEDICAL E, BANK_FEES E, TRAVEL E, EDUCATION E, CHARITY E, UNCATEGORIZED E]"

definition wf_enum :: "TransactionCategory \<Rightarrow> bool" where
  "wf_enum E = list_all (\<lambda>v. v \<in> set (enum_values E)) (named_members E)"

subsection \<open>State\<close>

type_synonym matrix = "real list list"

record ('v, 'c) TransactionCategorizer_obj =
  model_path :: string
  vectorizer :: 'v
  classifier :: 'c
  is_trained :: bool
  categories :: "string list"

text \<open>
  The dictionary that \<^verbatim>\<open>save_model\<close> pickles and \<^verbatim>\<open>load_model\<close> reads. A
  file found at the model path may hold any pickled dictionary, so each key may be absent.
\<close>

record ('v, 'c) model_data =
  md_vectorizer :: "'v option"
  md_classifier :: "'c option"
  md_is_trained :: "bool option"
  md_categories :: "string list option"

text \<open>
  A file is the bytes \<open>'b\<close> written to it, or \<open>Truncated\<close>: opened for writing and
  not written. The file system maps a path to the file there; directories are not tracked.
\<close>

datatype 'b file_content = Truncated | Contents 'b

type_synonym 'b filesystem = "string \<rightharpoonup> 'b file_content"

record 'p HuggingFaceCategorizer_obj =
  hf_classifier :: 'p
  hf_categories :: "string list"

text \<open>The two module globals \<^verbatim>\<open>_ml_categorizer\<close> and \<^verbatim>\<open>_hf_categorizer\<close>.\<close>

record ('v, 'c, 'p) globals =
  ml_categorizer :: "('v, 'c) TransactionCategorizer_obj"
  hf_categorizer :: "'p HuggingFaceCategorizer_obj option"

record transaction_row =
  description :: string
  merchant_name :: "string option"
  category :: string

record training_report =
  accuracy :: real
  classification_report :: string
  training_samples :: nat
  test_samples :: nat

subsection \<open>The libraries\<close>

text \<open>
  \<open>'v\<close> is a \<^verbatim>\<open>TfidfVectorizer\<close>, \<open>'c\<close> a \<^verbatim>\<open>RandomForestClassifier\<close>, \<open>'p\<close> a
  zero-shot pipeline, \<open>'b\<close> the bytes of a pickle. An operation that mutates its object
  returns the new object; when it raises, the object is taken to be as before.
  \<open>train_test_split\<close> returns \<^verbatim>\<open>(X_train, X_test, y_train, y_test)\<close>; \<open>hf_call\<close>
  returns the \<^verbatim>\<open>labels\<close> and the \<^verbatim>\<open>scores\<close> of the pipeline's result.
\<close>

record ('v, 'c, 'p, 'b) libs =
  new_vectorizer :: 'v
  new_classifier :: 'c
  vec_has_vocabulary :: "'v \<Rightarrow> bool"
  vec_fit_transform :: "'v \<Rightarrow> string list \<Rightarrow> lib_error + ('v \<times> matrix)"
  vec_transform :: "'v \<Rightarrow> string list \<Rightarrow> lib_error + matrix"
  train_test_split ::
    "matrix \<Rightarrow> string list \<Rightarrow> lib_error + (matrix \<times> matrix \<times> string list \<times> string list)"
  clf_fit :: "'c \<Rightarrow> matrix \<Rightarrow> string list \<Rightarrow> lib_error + 'c"
  clf_predict :: "'c \<Rightarrow> matrix \<Rightarrow> lib_error + string list"
  clf_predict_proba :: "'c \<Rightarrow> matrix \<Rightarrow> lib_error + matrix"
  accuracy_score :: "string list \<Rightarrow> string list \<Rightarrow> lib_error + real"
  report_of :: "string list \<Rightarrow> string list \<Rightarrow> lib_error + string"
  pickle_dump :: "('v, 'c) model_data \<Rightarrow> lib_error + 'b"
  pickle_load :: "'b \<Rightarrow> lib_error + ('v, 'c) model_data"
  hf_pipeline :: "lib_error + 'p"
  hf_call :: "'p \<Rightarrow> string \<Rightarrow> string list \<Rightarrow> lib_error + (string list \<times> real list)"

subsection \<open>Paths and files\<close>

text \<open>\<^verbatim>\<open>os.path.dirname\<close> of \<^verbatim>\<open>posixpath\<close>.\<close>

definition py_dirname :: "string \<Rightarrow> string" where
  "py_dirname p =
     (let head = rev (dropWhile (\<lambda>c. c \<noteq> CHR ''/'') (rev p))
      in if head \<noteq> [] \<and> head \<noteq> replicate (length head) (CHR ''/'')
         then rev (dropWhile (\<lambda>c. c = CHR ''/'') (rev head))
         else head)"

text \<open>
  \<^verbatim>\<open>os.makedirs(name, exist_ok=True)\<close> raises \<^verbatim>\<open>FileNotFoundError\<close> on the empty
  name. Directories are not tracked, so on any other name it is taken to succeed.
\<close>

definition os_makedirs :: "string \<Rightarrow> exn + unit" where
  "os_makedirs name = (if name = [] then Inl FileNotFoundError else Inr ())"

text \<open>
  \<^verbatim>\<open>open(path, 'wb')\<close> truncates the file; a path that ends in a slash names a
  directory.
\<close>

definition open_wb :: "'b filesystem \<Rightarrow> string \<Rightarrow> exn + 'b filesystem" where
  "open_wb fs path =
     (if path = [] then Inl FileNotFoundError
      else if last path = CHR ''/'' then Inl IsADirectoryError
      else Inr (fs(path \<mapsto> Truncated)))"

subsection \<open>\<^verbatim>\<open>TransactionCategorizer\<close>: persistence\<close>

definition save_model ::
  "('v, 'c, 'p, 'b) libs \<Rightarrow> ('v, 'c) TransactionCategorizer_obj \<Rightarrow> 'b filesystem
     \<Rightarrow> (exn + unit) \<times> 'b filesystem" where
  "save_model L self fs =
     (if \<not> is_trained self then (Inr (), fs)
      else case os_makedirs (py_dirname (model_path self)) of
        Inl e \<Rightarrow> (Inl e, fs)
      | Inr _ \<Rightarrow>
          (let model_data = \<lparr>md_vectorizer = Some (vectorizer self),
                             md_classifier = Some (classifier self),
                             md_is_trained = Some (is_trained self),
                             md_categories = Some (categories self)\<rparr>
           in case open_wb fs (model_path self) of
                Inl e \<Rightarrow> (Inl e, fs)
              | Inr fs1 \<Rightarrow>
                  (case pickle_dump L model_data of
                     Inl e \<Rightarrow> (Inl (LibraryError e), fs1)
                   | Inr b \<Rightarrow> (Inr (), fs1(model_path self \<mapsto> Contents b)))))"

text \<open>
  The body of the \<^verbatim>\<open>try\<close> of \<^verbatim>\<open>load_model\<close>: the four assignments in their
  order, each of which may raise after the earlier ones have taken effect.
\<close>

definition load_model_try ::
  "('v, 'c, 'p, 'b) libs \<Rightarrow> ('v, 'c) TransactionCategorizer_obj \<Rightarrow> 'b file_content
     \<Rightarrow> (exn + unit) \<times> ('v, 'c) TransactionCategorizer_obj" where
  "load_model_try L self f =
     (case f of
        Truncated \<Rightarrow> (Inl EOFError, self)
      | Contents b \<Rightarrow>
          (case pickle_load L b of
             Inl e \<Rightarrow> (Inl (LibraryError e), self)
           | Inr model_data \<Rightarrow>
               (case md_vectorizer model_data of
                  None \<Rightarrow> (Inl (KeyError ''vectorizer''), self)
                | Some v \<Rightarrow>
                    (let self1 = self\<lparr>vectorizer := v\<rparr>
                     in case md_classifier model_data of
                          None \<Rightarrow> (Inl (KeyError ''classifier''), self1)
                        | Some k \<Rightarrow>
                            (let self2 = self1\<lparr>classifier := k\<rparr>
                             in case md_is_trained model_data of
                                  None \<Rightarrow> (Inl (KeyError ''is_trained''), self2)
                                | Some t \<Rightarrow>
                                    (let self3 = self2\<lparr>is_trained := t\<rparr>
                                     in (Inr (),
                                         self3\<lparr>categories :=
                                           (case md_categories model_data of
                                              None \<Rightarrow> categories self3
                                            | Some cs \<Rightarrow> cs)\<rparr>)))))))"

definition load_model ::
  "('v, 'c, 'p, 'b) libs \<Rightarrow> ('v, 'c) TransactionCategorizer_obj \<Rightarrow> 'b filesystem
     \<Rightarrow> ('v, 'c) TransactionCategorizer_obj" where
  "load_model L self fs =
     (case fs (model_path self) of
        None \<Rightarrow> self
      | Some f \<Rightarrow>
          (case load_model_try L self f of
             (Inl e, self') \<Rightarrow> self'\<lparr>is_trained := False\<rparr>
           | (Inr _, self') \<Rightarrow> self'))"

definition TransactionCategorizer_init ::
  "('v, 'c, 'p, 'b) libs \<Rightarrow> TransactionCategory \<Rightarrow> 'b filesystem \<Rightarrow> string
     \<Rightarrow> ('v, 'c) TransactionCategorizer_obj" where
  "TransactionCategorizer_init L E fs path =
     load_model L
       \<lparr>model_path = path,
        vectorizer = new_vectorizer L,
        classifier = new_classifier L,
        is_trained = False,
        categories = enum_values E\<rparr> fs"

subsection \<open>\<^verbatim>\<open>TransactionCategorizer\<close>: features, training, prediction\<close>

text \<open>
  A data frame is the list of its rows. \<^verbatim>\<open>row.get('merchant_name', '')\<close> is the
  field \<open>merchant_name\<close>, \<open>None\<close> also standing for a frame without that column (the
  empty default is as false as \<^verbatim>\<open>None\<close>).
\<close>

definition create_features ::
  "('v, 'c, 'p, 'b) libs \<Rightarrow> ('v, 'c) TransactionCategorizer_obj \<Rightarrow> transaction_row list
     \<Rightarrow> (exn + matrix) \<times> ('v, 'c) TransactionCategorizer_obj" where
  "create_features L self transactions_df =
     (let text_features =
            map (\<lambda>row. preprocess_text (description row) (merchant_name row)) transactions_df
      in if \<not> vec_has_vocabulary L (vectorizer self)
         then (case vec_fit_transform L (vectorizer self) text_features of
                 Inl e \<Rightarrow> (Inl (LibraryError e), self)
               | Inr (v, tfidf_features) \<Rightarrow> (Inr tfidf_features, self\<lparr>vectorizer := v\<rparr>))
         else (lift_lib (vec_transform L (vectorizer self) text_features), self))"

definition train ::
  "('v, 'c, 'p, 'b) libs \<Rightarrow> ('v, 'c) TransactionCategorizer_obj \<Rightarrow> 'b filesystem
     \<Rightarrow> transaction_row list
     \<Rightarrow> (exn + training_report) \<times> ('v, 'c) TransactionCategorizer_obj \<times> 'b filesystem" where
  "train L self fs transactions_df =
     (if length transactions_df < 50
      then (Inl (ValueError ''Need at least 50 transactions to train the model''), self, fs)
      else case create_features L self transactions_df of
        (Inl e, self1) \<Rightarrow> (Inl e, self1, fs)
      | (Inr X, self1) \<Rightarrow>
          (let y = map category transactions_df
           in case train_test_split L X y of
                Inl e \<Rightarrow> (Inl (LibraryError e), self1, fs)
              | Inr (X_train, X_test, y_train, y_test) \<Rightarrow>
                  (case clf_fit L (classifier self1) X_train y_train of
                     Inl e \<Rightarrow> (Inl (LibraryError e), self1, fs)
                   | Inr k \<Rightarrow>
                       (let self2 = self1\<lparr>classifier := k\<rparr>
                        in case clf_predict L (classifier self2) X_test of
                             Inl e \<Rightarrow> (Inl (LibraryError e), self2, fs)
                           | Inr y_pred \<Rightarrow>
                               (case accuracy_score L y_test y_pred of
                                  Inl e \<Rightarrow> (Inl (LibraryError e), self2, fs)
                                | Inr acc \<Rightarrow>
                                    (let self3 = self2\<lparr>is_trained := True\<rparr>
                                     in case save_model L self3 fs of
                                          (Inl e, fs') \<Rightarrow> (Inl e, self3, fs')
                                        | (Inr _, fs') \<Rightarrow>
                                            (case report_of L y_test y_pred of
                                               Inl e \<Rightarrow> (Inl (LibraryError e), self3, fs')
                                             | Inr rep \<Rightarrow>
                                                 (Inr \<lparr>accuracy = acc,
                                                       classification_report = rep,
                                                       training_samples = length X_train,
                                                       test_samples = length X_test\<rparr>,
                                                  self3, fs'))))))))"

text \<open>Python's \<^verbatim>\<open>max\<close> of a sequence: the empty sequence raises.\<close>

fun py_max :: "real list \<Rightarrow> exn + real" where
  "py_max [] = Inl (ValueError ''max() arg is an empty sequence'')"
| "py_max (x # xs) = Inr (fold (\<lambda>y m. if y > m then y else m) xs x)"

text \<open>\<^verbatim>\<open>xs[0]\<close>.\<close>

fun first :: "'a list \<Rightarrow> exn + 'a" where
  "first [] = Inl IndexError"
| "first (x # xs) = Inr x"

text \<open>The argument \<^verbatim>\<open>amount\<close> of \<^verbatim>\<open>predict\<close> is not used.\<close>

definition predict ::
  "('v, 'c, 'p, 'b) libs \<Rightarrow> TransactionCategory \<Rightarrow> ('v, 'c) TransactionCategorizer_obj
     \<Rightarrow> string \<Rightarrow> string option \<Rightarrow> real option \<Rightarrow> exn + (string \<times> real)" where
  "predict L E self descr merchant amount =
     (if \<not> is_trained self then Inr (UNCATEGORIZED E, 0)
      else
        (let text = preprocess_text descr merchant
         in case vec_transform L (vectorizer self) [text] of
              Inl e \<Rightarrow> Inl (LibraryError e)
            | Inr text_vector \<Rightarrow>
                (case clf_predict L (classifier self) text_vector of
                   Inl e \<Rightarrow> Inl (LibraryError e)
                 | Inr predictions \<Rightarrow>
                     (case first predictions of
                        Inl e \<Rightarrow> Inl e
                      | Inr prediction \<Rightarrow>
                          (case clf_predict_proba L (classifier self) text_vector of
                             Inl e \<Rightarrow> Inl (LibraryError e)
                           | Inr probabilities \<Rightarrow>
                               (case first probabilities of
                                  Inl e \<Rightarrow> Inl e
                                | Inr prob \<Rightarrow>
                                    (case py_max prob of
                                       Inl e \<Rightarrow> Inl e
                                     | Inr confidence \<Rightarrow> Inr (prediction, confidence))))))))"

text \<open>
  \<^verbatim>\<open>retrain_with_feedback\<close> has the body \<^verbatim>\<open>pass\<close>: it returns \<^verbatim>\<open>None\<close>, here
  \<open>()\<close>, beside the categorizer and the file system it was called with.
\<close>

definition retrain_with_feedback ::
  "('v, 'c, 'p, 'b) libs \<Rightarrow> ('v, 'c) TransactionCategorizer_obj \<Rightarrow> 'b filesystem
     \<Rightarrow> transaction_row \<Rightarrow> string
     \<Rightarrow> unit \<times> ('v, 'c) TransactionCategorizer_obj \<times> 'b filesystem" where
  "retrain_with_feedback L self fs transaction_data correct_category = ((), self, fs)"

subsection \<open>\<^verbatim>\<open>HuggingFaceCategorizer\<close>\<close>

definition HuggingFaceCategorizer_init ::
  "('v, 'c, 'p, 'b) libs \<Rightarrow> exn + 'p HuggingFaceCategorizer_obj" where
  "HuggingFaceCategorizer_init L =
     (case hf_pipeline L of
        Inl e \<Rightarrow> Inl (LibraryError e)
      | Inr p \<Rightarrow>
          Inr \<lparr>hf_classifier = p,
               hf_categories =
                 [''groceries and food'', ''restaurants and dining'', ''transportation and gas'',
                  ''shopping and retail'', ''utilities and bills'', ''entertainment'',
                  ''healthcare and medical'', ''financial services'', ''travel'',
                  ''education'', ''charity and donations'', ''other expenses'']\<rparr>)"

definition category_mapping :: "TransactionCategory \<Rightarrow> (string \<times> string) list" where
  "category_mapping E =
     [(''groceries and food'', GROCERIES E),
      (''restaurants and dining'', RESTAURANTS E),
      (''transportation and gas'', GAS E),
      (''shopping and retail'', GENERAL_MERCHANDISE E),
      (''utilities and bills'', UTILITIES E),
      (''entertainment'', MOVIES E),
      (''healthcare and medical'', MEDICAL E),
      (''financial services'', BANK_FEES E),
      (''travel'', TRAVEL E),
      (''education'', EDUCATION E),
      (''charity and donations'', CHARITY E),
      (''other expenses'', UNCATEGORIZED E)]"

definition hf_predict ::
  "('v, 'c, 'p, 'b) libs \<Rightarrow> TransactionCategory \<Rightarrow> 'p HuggingFaceCategorizer_obj
     \<Rightarrow> string \<Rightarrow> string option \<Rightarrow> exn + (string \<times> real)" where
  "hf_predict L E self descr merchant =
     (let text = descr;
          text = (if truthy merchant then text @ '' at '' @ the merchant else text)
      in case hf_call L (hf_classifier self) text (hf_categories self) of
           Inl e \<Rightarrow> Inl (LibraryError e)
         | Inr (labels, scores) \<Rightarrow>
             (case first labels of
                Inl e \<Rightarrow> Inl e
              | Inr predicted_label \<Rightarrow>
                  (case first scores of
                     Inl e \<Rightarrow> Inl e
                   | Inr confidence \<Rightarrow>
                       (let mapped_category =
                              (case map_of (category_mapping E) predicted_label of
                                 None \<Rightarrow> UNCATEGORIZED E
                               | Some c \<Rightarrow> c)
                        in Inr (mapped_category, confidence)))))"

subsection \<open>\<^verbatim>\<open>categorize_transaction\<close>\<close>

text \<open>
  The body of the \<^verbatim>\<open>try\<close>: the result is the returned category or the exception that
  leaves the block, beside the globals as they are at that moment. The inner
  \<^verbatim>\<open>try\<close> around the construction of the fallback returns
  \<^verbatim>\<open>UNCATEGORIZED\<close> when the construction raises. The argument
  \<^verbatim>\<open>categories\<close> is not used.
\<close>

definition categorize_transaction_try ::
  "('v, 'c, 'p, 'b) libs \<Rightarrow> TransactionCategory \<Rightarrow> ('v, 'c, 'p) globals
     \<Rightarrow> string \<Rightarrow> string option \<Rightarrow> string list option
     \<Rightarrow> (exn + string) \<times> ('v, 'c, 'p) globals" where
  "categorize_transaction_try L E g descr merchant cats =
     (case (if is_trained (ml_categorizer g)
            then (case predict L E (ml_categorizer g) descr merchant None of
                    Inl e \<Rightarrow> Inl e
                  | Inr (cat, confidence) \<Rightarrow>
                      if confidence > 7 / 10 then Inr (Some cat) else Inr None)
            else Inr None) of
        Inl e \<Rightarrow> (Inl e, g)
      | Inr (Some cat) \<Rightarrow> (Inr cat, g)
      | Inr None \<Rightarrow>
          (case (case hf_categorizer g of
                   Some h \<Rightarrow> Inr (h, g)
                 | None \<Rightarrow>
                     (case HuggingFaceCategorizer_init L of
                        Inl e \<Rightarrow> Inl e
                      | Inr h \<Rightarrow> Inr (h, g\<lparr>hf_categorizer := Some h\<rparr>))) of
             Inl e \<Rightarrow> (Inr (UNCATEGORIZED E), g)
           | Inr (h, g1) \<Rightarrow>
               (case hf_predict L E h descr merchant of
                  Inl e \<Rightarrow> (Inl e, g1)
                | Inr (cat, confidence) \<Rightarrow>
                    if confidence > 1 / 2 then (Inr cat, g1)
                    else (Inr (UNCATEGORIZED E), g1))))"

text \<open>
  The whole function: \<^verbatim>\<open>except Exception\<close> turns every exception of the body into
  \<^verbatim>\<open>UNCATEGORIZED\<close>.
\<close>

definition categorize_transaction ::
  "('v, 'c, 'p, 'b) libs \<Rightarrow> TransactionCategory \<Rightarrow> ('v, 'c, 'p) globals
     \<Rightarrow> string \<Rightarrow> string option \<Rightarrow> string list option
     \<Rightarrow> string \<times> ('v, 'c, 'p) globals" where
  "categorize_transaction L E g descr merchant cats =
     (case categorize_transaction_try L E g descr merchant cats of
        (Inl e, g') \<Rightarrow> (UNCATEGORIZED E, g')
      | (Inr cat, g') \<Rightarrow> (cat, g'))"

subsection \<open>A concrete enumeration and stub libraries\<close>

text \<open>
  Concrete inputs on which the functions are evaluated. The stub vectorizer is its fitted
  flag and maps a text to its length; the stub classifier is the label and the confidence
  it answers with once fitted; the stub pipeline answers with one label and one score; the
  stub pickle is the dictionary itself.
\<close>

definition demo_enum :: TransactionCategory where
  "demo_enum =
     \<lparr>enum_values =
        [''groceries'', ''restaurants'', ''gas'', ''general_merchandise'', ''utilities'',
         ''movies'', ''medical'', ''bank_fees'', ''travel'', ''education'', ''charity'',
         ''uncategorized''],
      GROCERIES = ''groceries'',
      RESTAURANTS = ''restaurants'',
      GAS = ''gas'',
      GENERAL_MERCHANDISE = ''general_merchandise'',
      UTILITIES = ''utilities'',
      MOVIES = ''movies'',
      MEDICAL = ''medical'',
      BANK_FEES = ''bank_fees'',
      TRAVEL = ''travel'',
      EDUCATION = ''education'',
      CHARITY = ''charity'',
      UNCATEGORIZED = ''uncategorized''\<rparr>"

type_synonym stub_clf = "(string \<times> real) option"

type_synonym stub_blob = "(bool, stub_clf) model_data"

definition stub_libs :: "(bool, stub_clf, string \<times> real, stub_blob) libs" where
  "stub_libs =
     \<lparr>new_vectorizer = False,
      new_classifier = None,
      vec_has_vocabulary = (\<lambda>v. v),
      vec_fit_transform = (\<lambda>v texts. Inr (True, map (\<lambda>t. [real (length t)]) texts)),
      vec_transform =
        (\<lambda>v texts. if v then Inr (map (\<lambda>t. [real (length t)]) texts)
                    else Inl ''NotFittedError''),
      train_test_split =
        (\<lambda>X y. let n = length X div 5
                in Inr (drop n X, take n X, drop n y, take n y)),
      clf_fit =
        (\<lambda>k X y. if y = [] then Inl ''ValueError'' else Inr (Some (hd y, 9 / 10))),
      clf_predict =
        (\<lambda>k X. case k of None \<Rightarrow> Inl ''NotFittedError''
                 | Some (l, p) \<Rightarrow> Inr (map (\<lambda>_. l) X)),
      clf_predict_proba =
        (\<lambda>k X. case k of None \<Rightarrow> Inl ''NotFittedError''
                 | Some (l, p) \<Rightarrow> Inr (map (\<lambda>_. [p, 1 - p]) X)),
      accuracy_score = (\<lambda>y_true y_pred. Inr (if y_true = y_pred then 1 else 0)),
      report_of = (\<lambda>y_true y_pred. Inr ''report''),
      pickle_dump = (\<lambda>d. Inr d),
      pickle_load = (\<lambda>b. Inr b),
      hf_pipeline = Inr (''restaurants and dining'', 82 / 100),
      hf_call = (\<lambda>p text labels. Inr ([fst p], [snd p]))\<rparr>"

definition stub_categorizer :: "bool \<Rightarrow> string \<Rightarrow> real \<Rightarrow> (bool, stub_clf) TransactionCategorizer_obj" where
  "stub_categorizer trained label conf =
     \<lparr>model_path = ''models/transaction_categorizer.pkl'',
      vectorizer = trained,
      classifier = (if trained then Some (label, conf) else None),
      is_trained = trained,
      categories = enum_values demo_enum\<rparr>"

definition stub_fallback :: "string \<Rightarrow> real \<Rightarrow> (string \<times> real) HuggingFaceCategorizer_obj" where
  "stub_fallback label score =
     \<lparr>hf_classifier = (label, score),
      hf_categories =
        [''groceries and food'', ''restaurants and dining'', ''transportation and gas'',
         ''shopping and retail'', ''utilities and bills'', ''entertainment'',
         ''healthcare and medical'', ''financial services'', ''travel'',
         ''education'', ''charity and donations'', ''other expenses'']\<rparr>"

definition stub_row :: transaction_row where
  "stub_row = \<lparr>description = ''STARBUCKS STORE #123'', merchant_name = Some ''Starbucks'',
               category = ''restaurants''\<rparr>"

definition stub_globals ::
  "(bool, stub_clf) TransactionCategorizer_obj \<Rightarrow> (string \<times> real) HuggingFaceCategorizer_obj option
     \<Rightarrow> (bool, stub_clf, string \<times> real) globals" where
  "stub_globals c h = \<lparr>ml_categorizer = c, hf_categorizer = h\<rparr>"

text \<open>The stub libraries when the zero-shot model cannot be loaded.\<close>

definition offline_libs :: "(bool, stub_clf, string \<times> real, stub_blob) libs" where
  "offline_libs = stub_libs\<lparr>hf_pipeline := Inl ''model unavailable''\<rparr>"

subsection \<open>Notions used in the statements\<close>

text \<open>
  The fallback classifier that a call of \<^verbatim>\<open>categorize_transaction\<close> uses if it
  reaches the fallback: the one already constructed, else the one it constructs, if the
  construction succeeds.
\<close>

definition fallback_in_use ::
  "('v, 'c, 'p, 'b) libs \<Rightarrow> ('v, 'c, 'p) globals \<Rightarrow> 'p HuggingFaceCategorizer_obj option" where
  "fallback_in_use L g =
     (case hf_categorizer g of
        Some h \<Rightarrow> Some h
      | None \<Rightarrow> (case HuggingFaceCategorizer_init L of Inl e \<Rightarrow> None | Inr h \<Rightarrow> Some h))"

text \<open>The globals with the primary classifier marked untrained.\<close>

definition untrained :: "('v, 'c, 'p) globals \<Rightarrow> ('v, 'c, 'p) globals" where
  "untrained g = g\<lparr>ml_categorizer := (ml_categorizer g)\<lparr>is_trained := False\<rparr>\<rparr>"

section \<open>Properties\<close>

subsection \<open>The stubs evaluated\<close>

lemma stub_predict:
  "predict stub_libs E (stub_categorizer True l c) descr merchant amount
     = Inr (l, if c < 1 - c then 1 - c else c)"
  by (simp add: predict_def stub_libs_def stub_categorizer_def)

lemma stub_hf_predict:
  "hf_predict stub_libs demo_enum (stub_fallback ''restaurants and dining'' s) descr merchant
     = Inr (''restaurants'', s)"
  by (simp add: hf_predict_def stub_libs_def stub_fallback_def category_mapping_def
      demo_enum_def)

lemma stub_init:
  "HuggingFaceCategorizer_init stub_libs
     = Inr (stub_fallback ''restaurants and dining'' (82 / 100))"
  by (simp add: HuggingFaceCategorizer_init_def stub_libs_def stub_fallback_def)

lemma stub_globals_sel:
  "ml_categorizer (stub_globals c h) = c" "hf_categorizer (stub_globals c h) = h"
  by (simp_all add: stub_globals_def)

lemma stub_categorizer_sel:
  "is_trained (stub_categorizer t l c) = t"
  "model_path (stub_categorizer t l c) = ''models/transaction_categorizer.pkl''"
  by (simp_all add: stub_categorizer_def)

lemmas stub_defs =
  stub_libs_def offline_libs_def stub_categorizer_def stub_fallback_def stub_globals_def
  stub_row_def demo_enum_def


subsection \<open>Preprocessing\<close>

lemma match_len_Nil [simp]: "match_len [] s = 0"
  by (simp add: match_len_def)

lemma match_len_Cons [simp]:
  "match_len (t # ts) s = (if prefix t s then max (length t) (match_len ts s) else match_len ts s)"
  by (simp add: match_len_def)
































text \<open>
  A text outside the statement: every \<^verbatim>\<open>"deposit"\<close> holds a \<^verbatim>\<open>"pos"\<close>, and the
  loop removes \<^verbatim>\<open>'pos'\<close> before it comes to \<^verbatim>\<open>'deposit'\<close>.
\<close>

lemma deposit_example:
  "\<not> stand_apart (spec_stop_terms @ [''transaction'']) (joined_text ''deposit'' None) \<and>
   preprocess_text ''deposit'' None = ''deit'' \<and>
   preprocess_reference (spec_stop_terms @ [''transaction'']) ''deposit'' None = []"
  by code_simp

subsection \<open>Prediction without a trained model\<close>

text \<open>
  C7: \<^verbatim>\<open>predict\<close> on a categorizer whose \<^verbatim>\<open>is_trained\<close> is false returns
  \<^verbatim>\<open>(UNCATEGORIZED, 0.0)\<close> and does not raise, whatever the description, the merchant,
  the amount, the vectorizer and the classifier.
\<close>

theorem predict_untrained:
  "\<not> is_trained self \<Longrightarrow> predict L E self descr merchant amount = Inr (UNCATEGORIZED E, 0)"
  by (simp add: predict_def)

theorem predict_untrained_witness:
  "\<not> is_trained (stub_categorizer False [] 0) \<and>
   predict stub_libs demo_enum (stub_categorizer False [] 0) ''STARBUCKS STORE #123''
     (Some ''Starbucks'') None = Inr (''uncategorized'', 0)"
  using predict_untrained [of "stub_categorizer False [] 0" stub_libs demo_enum
      "''STARBUCKS STORE #123''" "Some ''Starbucks''" None]
  by (simp add: stub_categorizer_def demo_enum_def)

subsection \<open>Feedback\<close>

text \<open>
  C9: \<^verbatim>\<open>retrain_with_feedback\<close> returns \<^verbatim>\<open>None\<close> and leaves the categorizer
  (vectorizer, classifier, trained flag, categories, model path) and the persisted
  artifact as they were, for every transaction and every category given as correct.
\<close>

theorem retrain_with_feedback_noop:
  "retrain_with_feedback L self fs transaction_data correct_category = ((), self, fs)"
  by (simp add: retrain_with_feedback_def)

subsection \<open>Training\<close>

lemma create_features_error:
  "create_features L self df = (Inl e, self') \<Longrightarrow> \<exists>m. e = LibraryError m"
  by (auto simp: create_features_def lift_lib_def Let_def
      split: if_splits sum.splits prod.splits)

lemma save_model_error:
  "save_model L self fs = (Inl e, fs') \<Longrightarrow> \<forall>m. e \<noteq> ValueError m"
  by (auto simp: save_model_def os_makedirs_def open_wb_def Let_def
      split: if_splits sum.splits)

lemma train_past_check:
  "50 \<le> length df \<Longrightarrow> fst (train L self fs df) \<noteq> Inl (ValueError m)"
  by (auto simp: train_def Let_def split: sum.splits prod.splits
      dest: create_features_error save_model_error)

text \<open>
  C3: \<^verbatim>\<open>train\<close> raises its insufficient-data error, which in the code is
  \<^verbatim>\<open>ValueError("Need at least 50 transactions to train the model")\<close>, if and only
  if the corpus has fewer than 50 rows; and when it does, the categorizer (vectorizer,
  classifier, trained flag) and the file system, so the persisted artifact, are as
  before the call.
\<close>

theorem train_insufficient_data:
  "(fst (train L self fs df)
      = Inl (ValueError ''Need at least 50 transactions to train the model'')
      \<longleftrightarrow> length df < 50) \<and>
   (length df < 50 \<longrightarrow> snd (train L self fs df) = (self, fs))"
proof (cases "length df < 50")
  case True
  then show ?thesis by (simp add: train_def)
next
  case False
  then have "50 \<le> length df" by simp
  from train_past_check [OF this] False show ?thesis by blast
qed

lemma train_fifty:
  "fst (train stub_libs (stub_categorizer False [] 0) Map.empty (replicate 50 stub_row))
     = Inr \<lparr>accuracy = 1, classification_report = ''report'',
            training_samples = 40, test_samples = 10\<rparr>"
  by (simp add: train_def create_features_def stub_libs_def stub_categorizer_def Let_def
        save_model_def os_makedirs_def open_wb_def py_dirname_def stub_row_def)

text \<open>
  The witness: 49 rows raise and change nothing; 50 rows do not raise that error, and
  with the stub libraries the training runs to its report.
\<close>

theorem train_insufficient_data_witness:
  "fst (train stub_libs (stub_categorizer False [] 0) Map.empty (replicate 49 stub_row))
     = Inl (ValueError ''Need at least 50 transactions to train the model'') \<and>
   snd (train stub_libs (stub_categorizer False [] 0) Map.empty (replicate 49 stub_row))
     = (stub_categorizer False [] 0, Map.empty) \<and>
   fst (train stub_libs (stub_categorizer False [] 0) Map.empty (replicate 50 stub_row))
     \<noteq> Inl (ValueError ''Need at least 50 transactions to train the model'') \<and>
   fst (train stub_libs (stub_categorizer False [] 0) Map.empty (replicate 50 stub_row))
     = Inr \<lparr>accuracy = 1, classification_report = ''report'',
            training_samples = 40, test_samples = 10\<rparr>"
  using train_insufficient_data [of stub_libs "stub_categorizer False [] 0" Map.empty
      "replicate 49 stub_row"]
    train_insufficient_data [of stub_libs "stub_categorizer False [] 0" Map.empty
      "replicate 50 stub_row"]
    train_fifty
  by simp

subsection \<open>The model store\<close>

lemma save_model_written:
  assumes "is_trained self" and "save_model L self fs = (Inr (), fs')"
  shows "\<exists>b. pickle_dump L \<lparr>md_vectorizer = Some (vectorizer self),
                             md_classifier = Some (classifier self),
                             md_is_trained = Some (is_trained self),
                             md_categories = Some (categories self)\<rparr> = Inr b \<and>
             fs' (model_path self) = Some (Contents b)"
  using assms
  by (auto simp: save_model_def Let_def open_wb_def split: sum.splits if_splits)

lemma load_model_saved:
  assumes "fs (model_path self') = Some (Contents b)"
    and "pickle_load L b = Inr \<lparr>md_vectorizer = Some v, md_classifier = Some k,
                               md_is_trained = Some t, md_categories = Some cs\<rparr>"
  shows "load_model L self' fs =
           self'\<lparr>vectorizer := v, classifier := k, is_trained := t, categories := cs\<rparr>"
  using assms by (simp add: load_model_def load_model_try_def)

text \<open>
  C6: for a trained categorizer, after a \<^verbatim>\<open>save_model\<close> that returns,
  \<^verbatim>\<open>load_model\<close> into the same categorizer, and a fresh
  \<^verbatim>\<open>TransactionCategorizer\<close> constructed on the same model path, both predict on
  every input what the categorizer predicted before the save: the same category and
  confidence, or the same exception. Pickle is taken to be faithful: loading what was
  dumped gives the dumped dictionary.
\<close>

theorem save_load_round_trip:
  assumes trained: "is_trained self"
    and saved: "save_model L self fs = (Inr (), fs')"
    and pickle: "\<forall>d b. pickle_dump L d = Inr b \<longrightarrow> pickle_load L b = Inr d"
  shows "predict L E (load_model L self fs') descr merchant amount
           = predict L E self descr merchant amount \<and>
         predict L E (TransactionCategorizer_init L E' fs' (model_path self))
             descr merchant amount
           = predict L E self descr merchant amount"
proof -
  from save_model_written [OF trained saved] obtain b where
    dump: "pickle_dump L \<lparr>md_vectorizer = Some (vectorizer self),
                           md_classifier = Some (classifier self),
                           md_is_trained = Some (is_trained self),
                           md_categories = Some (categories self)\<rparr> = Inr b"
    and written: "fs' (model_path self) = Some (Contents b)"
    by blast
  from pickle dump have load:
    "pickle_load L b = Inr \<lparr>md_vectorizer = Some (vectorizer self),
                             md_classifier = Some (classifier self),
                             md_is_trained = Some (is_trained self),
                             md_categories = Some (categories self)\<rparr>"
    by blast
  have same: "load_model L self fs' = self"
    using load_model_saved [where fs = fs' and self' = self, OF written load] by simp
  have fresh: "TransactionCategorizer_init L E' fs' (model_path self) = self"
    unfolding TransactionCategorizer_init_def
    by (subst load_model_saved [where fs = fs' and b = b and v = "vectorizer self"
          and k = "classifier self" and t = "is_trained self" and cs = "categories self"])
       (simp_all add: written load)
  show ?thesis by (simp add: same fresh)
qed

text \<open>
  The witness: the stub categorizer trained on \<^verbatim>\<open>"groceries"\<close> at 0.9, saved to an
  empty file system at the default model path, and loaded back.
\<close>

theorem save_load_round_trip_witness:
  "is_trained (stub_categorizer True ''groceries'' (9 / 10)) \<and>
   fst (save_model stub_libs (stub_categorizer True ''groceries'' (9 / 10)) Map.empty)
     = Inr () \<and>
   predict stub_libs demo_enum
       (load_model stub_libs (stub_categorizer True ''groceries'' (9 / 10))
          (snd (save_model stub_libs (stub_categorizer True ''groceries'' (9 / 10)) Map.empty)))
       ''STARBUCKS STORE #123'' (Some ''Starbucks'') None
     = Inr (''groceries'', 9 / 10) \<and>
   predict stub_libs demo_enum
       (TransactionCategorizer_init stub_libs demo_enum
          (snd (save_model stub_libs (stub_categorizer True ''groceries'' (9 / 10)) Map.empty))
          ''models/transaction_categorizer.pkl'')
       ''STARBUCKS STORE #123'' (Some ''Starbucks'') None
     = Inr (''groceries'', 9 / 10)"
proof -
  let ?c = "stub_categorizer True ''groceries'' (9 / 10)"
  let ?fs = "snd (save_model stub_libs ?c Map.empty)"
  have t: "is_trained ?c"
    by (simp add: stub_categorizer_sel)
  have ok: "fst (save_model stub_libs ?c Map.empty) = Inr ()"
    by (simp add: save_model_def os_makedirs_def open_wb_def py_dirname_def
        stub_categorizer_def stub_libs_def)
  then have s: "save_model stub_libs ?c Map.empty = (Inr (), ?fs)"
    by (metis prod.collapse)
  have p: "\<forall>d b. pickle_dump stub_libs d = Inr b \<longrightarrow> pickle_load stub_libs b = Inr d"
    by (simp add: stub_libs_def)
  from save_load_round_trip [OF t s p, of demo_enum "''STARBUCKS STORE #123''"
      "Some ''Starbucks''" None demo_enum]
  show ?thesis
    using t ok by (simp add: stub_predict stub_categorizer_sel)
qed

subsection \<open>The decision chain\<close>

text \<open>
  C10: the argument \<^verbatim>\<open>categories\<close> of \<^verbatim>\<open>categorize_transaction\<close> has no
  influence: for any two hint lists, \<^verbatim>\<open>None\<close> included, the call returns the same
  category and leaves the same globals.
\<close>

theorem categorize_transaction_ignores_categories:
  "categorize_transaction L E g descr merchant h1 =
   categorize_transaction L E g descr merchant h2"
  by (simp add: categorize_transaction_def categorize_transaction_try_def)

text \<open>
  C8: when the primary classifier is untrained, or predicts with a confidence of at most
  0.7, and the fallback classifier is not yet constructed and its construction raises,
  \<^verbatim>\<open>categorize_transaction\<close> returns \<^verbatim>\<open>UNCATEGORIZED\<close> and leaves the globals as
  they were: \<^verbatim>\<open>_hf_categorizer\<close> is still \<^verbatim>\<open>None\<close>.
\<close>

theorem fallback_construction_fails:
  assumes "hf_categorizer g = None"
    and "HuggingFaceCategorizer_init L = Inl e"
    and "\<not> is_trained (ml_categorizer g) \<or>
         (\<exists>cat confidence. predict L E (ml_categorizer g) descr merchant None
             = Inr (cat, confidence) \<and> confidence \<le> 7 / 10)"
  shows "categorize_transaction L E g descr merchant cats = (UNCATEGORIZED E, g)"
  using assms
  by (auto simp: categorize_transaction_def categorize_transaction_try_def)

theorem fallback_construction_fails_witness:
  "hf_categorizer (stub_globals (stub_categorizer False [] 0) None) = None \<and>
   HuggingFaceCategorizer_init offline_libs = Inl (LibraryError ''model unavailable'') \<and>
   \<not> is_trained (ml_categorizer (stub_globals (stub_categorizer False [] 0) None)) \<and>
   categorize_transaction offline_libs demo_enum
       (stub_globals (stub_categorizer False [] 0) None)
       ''STARBUCKS STORE #123'' (Some ''Starbucks'') (Some [])
     = (''uncategorized'', stub_globals (stub_categorizer False [] 0) None)"
  using fallback_construction_fails [of "stub_globals (stub_categorizer False [] 0) None"
      offline_libs "LibraryError ''model unavailable''" demo_enum
      "''STARBUCKS STORE #123''" "Some ''Starbucks''" "Some []"]
  by (simp add: stub_defs HuggingFaceCategorizer_init_def)

lemma primary_confident:
  "is_trained (ml_categorizer g) \<Longrightarrow>
   predict L E (ml_categorizer g) descr merchant None = Inr (cat, confidence) \<Longrightarrow>
   confidence > 7 / 10 \<Longrightarrow>
   categorize_transaction L E g descr merchant cats = (cat, g)"
  by (simp add: categorize_transaction_def categorize_transaction_try_def)

lemma primary_not_confident:
  "is_trained (ml_categorizer g) \<Longrightarrow>
   predict L E (ml_categorizer g) descr merchant None = Inr (cat, confidence) \<Longrightarrow>
   confidence \<le> 7 / 10 \<Longrightarrow>
   fst (categorize_transaction L E g descr merchant cats)
     = fst (categorize_transaction L E (untrained g) descr merchant cats) \<and>
   hf_categorizer (snd (categorize_transaction L E g descr merchant cats))
     = hf_categorizer (snd (categorize_transaction L E (untrained g) descr merchant cats))"
  by (auto simp: categorize_transaction_def categorize_transaction_try_def untrained_def
      split: option.splits sum.splits prod.splits)

lemma fallback_gate:
  "\<not> is_trained (ml_categorizer g) \<or>
     (\<exists>cat confidence. predict L E (ml_categorizer g) descr merchant None
             = Inr (cat, confidence) \<and> confidence \<le> 7 / 10) \<Longrightarrow>
   fallback_in_use L g = Some h \<Longrightarrow>
   hf_predict L E h descr merchant = Inr (cat2, confidence2) \<Longrightarrow>
   fst (categorize_transaction L E g descr merchant cats)
     = (if confidence2 > 1 / 2 then cat2 else UNCATEGORIZED E)"
  by (auto simp: categorize_transaction_def categorize_transaction_try_def fallback_in_use_def
      split: option.splits sum.splits prod.splits)

text \<open>
  C2: both thresholds are strict. With the primary classifier trained:
  a confidence above 0.7 makes \<^verbatim>\<open>categorize_transaction\<close> return the primary's
  category at once, the globals untouched; a confidence of exactly 0.7 does not: the call
  then returns what it returns with an untrained primary, and leaves the same fallback
  classifier behind. Once the fallback is reached (primary untrained, or confidence at
  most 0.7) and answers, its mapped category is returned if its confidence is above 0.5,
  and \<^verbatim>\<open>UNCATEGORIZED\<close> otherwise, so also at exactly 0.5.
\<close>

theorem confidence_gating:
  "(is_trained (ml_categorizer g) \<and>
    predict L E (ml_categorizer g) descr merchant None = Inr (cat, confidence) \<and>
    confidence > 7 / 10 \<longrightarrow>
      categorize_transaction L E g descr merchant cats = (cat, g)) \<and>
   (is_trained (ml_categorizer g) \<and>
    predict L E (ml_categorizer g) descr merchant None = Inr (cat, 7 / 10) \<longrightarrow>
      fst (categorize_transaction L E g descr merchant cats)
        = fst (categorize_transaction L E (untrained g) descr merchant cats) \<and>
      hf_categorizer (snd (categorize_transaction L E g descr merchant cats))
        = hf_categorizer (snd (categorize_transaction L E (untrained g) descr merchant cats))) \<and>
   ((\<not> is_trained (ml_categorizer g) \<or>
     (\<exists>cat confidence. predict L E (ml_categorizer g) descr merchant None
         = Inr (cat, confidence) \<and> confidence \<le> 7 / 10)) \<and>
    fallback_in_use L g = Some h \<and>
    hf_predict L E h descr merchant = Inr (cat2, confidence2) \<longrightarrow>
      fst (categorize_transaction L E g descr merchant cats)
        = (if confidence2 > 1 / 2 then cat2 else UNCATEGORIZED E)) \<and>
   ((\<not> is_trained (ml_categorizer g) \<or>
     (\<exists>cat confidence. predict L E (ml_categorizer g) descr merchant None
         = Inr (cat, confidence) \<and> confidence \<le> 7 / 10)) \<and>
    fallback_in_use L g = Some h \<and>
    hf_predict L E h descr merchant = Inr (cat2, 1 / 2) \<longrightarrow>
      fst (categorize_transaction L E g descr merchant cats) = UNCATEGORIZED E)"
proof (intro conjI impI)
  assume "is_trained (ml_categorizer g) \<and>
    predict L E (ml_categorizer g) descr merchant None = Inr (cat, confidence) \<and>
    confidence > 7 / 10"
  then show "categorize_transaction L E g descr merchant cats = (cat, g)"
    by (simp add: primary_confident)
next
  assume a: "is_trained (ml_categorizer g) \<and>
    predict L E (ml_categorizer g) descr merchant None = Inr (cat, 7 / 10)"
  from a primary_not_confident [of g L E descr merchant cat "7 / 10" cats]
  show "fst (categorize_transaction L E g descr merchant cats)
        = fst (categorize_transaction L E (untrained g) descr merchant cats)"
    by simp
  from a primary_not_confident [of g L E descr merchant cat "7 / 10" cats]
  show "hf_categorizer (snd (categorize_transaction L E g descr merchant cats))
        = hf_categorizer (snd (categorize_transaction L E (untrained g) descr merchant cats))"
    by simp
next
  assume "(\<not> is_trained (ml_categorizer g) \<or>
     (\<exists>cat confidence. predict L E (ml_categorizer g) descr merchant None
         = Inr (cat, confidence) \<and> confidence \<le> 7 / 10)) \<and>
    fallback_in_use L g = Some h \<and>
    hf_predict L E h descr merchant = Inr (cat2, confidence2)"
  then show "fst (categorize_transaction L E g descr merchant cats)
        = (if confidence2 > 1 / 2 then cat2 else UNCATEGORIZED E)"
    using fallback_gate [of g L E descr merchant h cat2 confidence2 cats] by blast
next
  assume "(\<not> is_trained (ml_categorizer g) \<or>
     (\<exists>cat confidence. predict L E (ml_categorizer g) descr merchant None
         = Inr (cat, confidence) \<and> confidence \<le> 7 / 10)) \<and>
    fallback_in_use L g = Some h \<and>
    hf_predict L E h descr merchant = Inr (cat2, 1 / 2)"
  then have "fst (categorize_transaction L E g descr merchant cats)
        = (if (1 / 2 :: real) > 1 / 2 then cat2 else UNCATEGORIZED E)"
    using fallback_gate [of g L E descr merchant h cat2 "1 / 2" cats] by blast
  then show "fst (categorize_transaction L E g descr merchant cats) = UNCATEGORIZED E"
    by simp
qed

text \<open>
  The witness: a primary at 0.71 short-circuits; a primary at exactly 0.7 does not, and
  the fallback's \<^verbatim>\<open>("restaurants and dining", 0.82)\<close> decides, as it does with an
  untrained primary; a fallback at exactly 0.5 gives \<^verbatim>\<open>UNCATEGORIZED\<close>.
\<close>

theorem confidence_gating_witness:
  "categorize_transaction stub_libs demo_enum
       (stub_globals (stub_categorizer True ''groceries'' (71 / 100)) None)
       ''STARBUCKS STORE #123'' (Some ''Starbucks'') (Some [])
     = (''groceries'', stub_globals (stub_categorizer True ''groceries'' (71 / 100)) None) \<and>
   fst (categorize_transaction stub_libs demo_enum
       (stub_globals (stub_categorizer True ''groceries'' (7 / 10)) None)
       ''STARBUCKS STORE #123'' (Some ''Starbucks'') (Some [])) = ''restaurants'' \<and>
   fst (categorize_transaction stub_libs demo_enum
       (untrained (stub_globals (stub_categorizer True ''groceries'' (7 / 10)) None))
       ''STARBUCKS STORE #123'' (Some ''Starbucks'') (Some [])) = ''restaurants'' \<and>
   fst (categorize_transaction stub_libs demo_enum
       (stub_globals (stub_categorizer True ''groceries'' (7 / 10))
          (Some (stub_fallback ''restaurants and dining'' (1 / 2))))
       ''STARBUCKS STORE #123'' (Some ''Starbucks'') (Some [])) = ''uncategorized''"
proof -
  let ?d = "''STARBUCKS STORE #123''" and ?m = "Some ''Starbucks''"
  let ?g71 = "stub_globals (stub_categorizer True ''groceries'' (71 / 100)) None"
  let ?g70 = "stub_globals (stub_categorizer True ''groceries'' (7 / 10)) None"
  let ?h50 = "stub_fallback ''restaurants and dining'' (1 / 2)"
  let ?h82 = "stub_fallback ''restaurants and dining'' (82 / 100)"
  let ?g50 = "stub_globals (stub_categorizer True ''groceries'' (7 / 10)) (Some ?h50)"
  have p71: "predict stub_libs demo_enum (ml_categorizer ?g71) ?d ?m None
               = Inr (''groceries'', 71 / 100)"
    by (simp add: stub_globals_sel stub_predict)
  have p70: "predict stub_libs demo_enum (ml_categorizer ?g70) ?d ?m None
               = Inr (''groceries'', 7 / 10)"
    by (simp add: stub_globals_sel stub_predict)
  have p50: "predict stub_libs demo_enum (ml_categorizer ?g50) ?d ?m None
               = Inr (''groceries'', 7 / 10)"
    by (simp add: stub_globals_sel stub_predict)
  have f70: "fallback_in_use stub_libs ?g70 = Some ?h82"
    by (simp add: fallback_in_use_def stub_globals_sel stub_init)
  have f50: "fallback_in_use stub_libs ?g50 = Some ?h50"
    by (simp add: fallback_in_use_def stub_globals_sel)
  have u: "UNCATEGORIZED demo_enum = ''uncategorized''"
    by (simp add: demo_enum_def)
  have a: "categorize_transaction stub_libs demo_enum ?g71 ?d ?m (Some [])
             = (''groceries'', ?g71)"
    using confidence_gating [of ?g71 stub_libs demo_enum ?d ?m "''groceries''" "71 / 100"
        "Some []"] p71
    by (simp add: stub_globals_sel stub_categorizer_sel)
  have e70: "\<exists>cat confidence. predict stub_libs demo_enum (ml_categorizer ?g70) ?d ?m None
               = Inr (cat, confidence) \<and> confidence \<le> 7 / 10"
    using p70 by (intro exI [of _ "''groceries''"] exI [of _ "7 / 10 :: real"]) simp
  have e50: "\<exists>cat confidence. predict stub_libs demo_enum (ml_categorizer ?g50) ?d ?m None
               = Inr (cat, confidence) \<and> confidence \<le> 7 / 10"
    using p50 by (intro exI [of _ "''groceries''"] exI [of _ "7 / 10 :: real"]) simp
  have "fst (categorize_transaction stub_libs demo_enum ?g70 ?d ?m (Some []))
          = (if (82 / 100 :: real) > 1 / 2 then ''restaurants'' else UNCATEGORIZED demo_enum)"
    using confidence_gating [of ?g70 stub_libs demo_enum ?d ?m "''groceries''" "7 / 10"
        "Some []" ?h82 "''restaurants''" "82 / 100"] e70 f70
      stub_hf_predict [of "82 / 100" ?d ?m]
    by blast
  then have b: "fst (categorize_transaction stub_libs demo_enum ?g70 ?d ?m (Some []))
             = ''restaurants''"
    by simp
  have "fst (categorize_transaction stub_libs demo_enum ?g50 ?d ?m (Some []))
          = UNCATEGORIZED demo_enum"
    using confidence_gating [of ?g50 stub_libs demo_enum ?d ?m "''groceries''" "7 / 10"
        "Some []" ?h50 "''restaurants''"] e50 f50
      stub_hf_predict [of "1 / 2" ?d ?m]
    by blast
  then have c: "fst (categorize_transaction stub_libs demo_enum ?g50 ?d ?m (Some []))
             = ''uncategorized''"
    by (simp add: u)
  have d: "fst (categorize_transaction stub_libs demo_enum (untrained ?g70) ?d ?m (Some []))
             = ''restaurants''"
    using confidence_gating [of ?g70 stub_libs demo_enum ?d ?m "''groceries''" "7 / 10"
        "Some []"] p70 b
    by (simp add: stub_globals_sel stub_categorizer_sel)
  from a b c d show ?thesis by simp
qed

lemma category_mapping_member:
  "map_of (category_mapping E) l = Some c \<Longrightarrow> c \<in> set (named_members E)"
  by (auto simp: category_mapping_def named_members_def split: if_splits)

lemma wf_enum_member:
  "wf_enum E \<Longrightarrow> c \<in> set (named_members E) \<Longrightarrow> c \<in> set (enum_values E)"
  by (simp add: wf_enum_def list_all_iff)

lemma wf_enum_UNCATEGORIZED: "wf_enum E \<Longrightarrow> UNCATEGORIZED E \<in> set (enum_values E)"
  by (rule wf_enum_member) (simp_all add: named_members_def)

lemma hf_predict_member:
  assumes "wf_enum E" and "hf_predict L E h descr merchant = Inr (c, confidence)"
  shows "c \<in> set (enum_values E)"
proof -
  from assms(2) obtain l where
    c: "c = (case map_of (category_mapping E) l of None \<Rightarrow> UNCATEGORIZED E | Some v \<Rightarrow> v)"
    by (auto simp: hf_predict_def Let_def split: sum.splits prod.splits)
  show ?thesis
  proof (cases "map_of (category_mapping E) l")
    case None
    with c assms(1) show ?thesis by (simp add: wf_enum_UNCATEGORIZED)
  next
    case (Some v)
    with c assms(1) show ?thesis
      by (simp add: wf_enum_member category_mapping_member)
  qed
qed

text \<open>
  Where the result of \<^verbatim>\<open>categorize_transaction\<close> comes from: the default, the
  primary classifier above 0.7, or the fallback classifier above 0.5.
\<close>

lemma categorize_result_cases:
  "fst (categorize_transaction L E g descr merchant cats) = UNCATEGORIZED E \<or>
   (is_trained (ml_categorizer g) \<and>
    (\<exists>confidence. predict L E (ml_categorizer g) descr merchant None
        = Inr (fst (categorize_transaction L E g descr merchant cats), confidence) \<and>
      7 / 10 < confidence)) \<or>
   (\<exists>h confidence. fallback_in_use L g = Some h \<and>
      hf_predict L E h descr merchant
        = Inr (fst (categorize_transaction L E g descr merchant cats), confidence) \<and>
      1 / 2 < confidence)"
  by (auto simp: categorize_transaction_def categorize_transaction_try_def fallback_in_use_def
      split: option.splits sum.splits prod.splits if_splits)

text \<open>
  C1, as stated: \<^verbatim>\<open>categorize_transaction\<close> returns a member of the enumeration
  for every classifier state. It does not: the category of a trained primary classifier
  that is confident above 0.7 is returned as the classifier gives it, and the classifier
  gives the labels it was trained on, which \<^verbatim>\<open>train\<close> takes from the
  \<^verbatim>\<open>category\<close> column unchecked. With a model whose label is \<^verbatim>\<open>"zzz"\<close>, the
  result is \<^verbatim>\<open>"zzz"\<close>, not a value of the (well-formed) enumeration.
\<close>

theorem categorize_transaction_member_counterexample:
  "wf_enum demo_enum \<and>
   fst (categorize_transaction stub_libs demo_enum
          (stub_globals (stub_categorizer True ''zzz'' (9 / 10)) None)
          ''coffee'' None None) = ''zzz'' \<and>
   ''zzz'' \<notin> set (enum_values demo_enum)"
proof -
  have "categorize_transaction stub_libs demo_enum
          (stub_globals (stub_categorizer True ''zzz'' (9 / 10)) None) ''coffee'' None None
        = (''zzz'', stub_globals (stub_categorizer True ''zzz'' (9 / 10)) None)"
    by (rule primary_confident [where confidence = "9 / 10"])
       (simp_all add: stub_globals_sel stub_categorizer_sel stub_predict)
  moreover have "wf_enum demo_enum"
    by (simp add: wf_enum_def named_members_def demo_enum_def)
  moreover have "''zzz'' \<notin> set (enum_values demo_enum)"
    by (simp add: demo_enum_def)
  ultimately show ?thesis by simp
qed

text \<open>
  C1, amended: for every input and every classifier state,
  \<^verbatim>\<open>categorize_transaction\<close> returns a category and no exception leaves it: an
  exception raised in its body is turned into \<^verbatim>\<open>UNCATEGORIZED\<close>. The category is a
  member of the enumeration, or it is the label that the trained primary classifier
  predicted with a confidence above 0.7.
\<close>

theorem categorize_transaction_result:
  "(wf_enum E \<longrightarrow>
      fst (categorize_transaction L E g descr merchant cats) \<in> set (enum_values E) \<or>
      (is_trained (ml_categorizer g) \<and>
       (\<exists>confidence. predict L E (ml_categorizer g) descr merchant None
           = Inr (fst (categorize_transaction L E g descr merchant cats), confidence) \<and>
         7 / 10 < confidence))) \<and>
   (\<forall>e g'. categorize_transaction_try L E g descr merchant cats = (Inl e, g') \<longrightarrow>
      categorize_transaction L E g descr merchant cats = (UNCATEGORIZED E, g'))"
proof (intro conjI impI allI)
  assume wf: "wf_enum E"
  from categorize_result_cases [of L E g descr merchant cats] wf
  show "fst (categorize_transaction L E g descr merchant cats) \<in> set (enum_values E) \<or>
      (is_trained (ml_categorizer g) \<and>
       (\<exists>confidence. predict L E (ml_categorizer g) descr merchant None
           = Inr (fst (categorize_transaction L E g descr merchant cats), confidence) \<and>
         7 / 10 < confidence))"
    by (metis hf_predict_member wf_enum_UNCATEGORIZED)
next
  fix e g'
  assume "categorize_transaction_try L E g descr merchant cats = (Inl e, g')"
  then show "categorize_transaction L E g descr merchant cats = (UNCATEGORIZED E, g')"
    by (simp add: categorize_transaction_def)
qed

text \<open>
  The witness: with the well-formed enumeration, an untrained primary and the fallback's
  \<^verbatim>\<open>("restaurants and dining", 0.82)\<close>, the result is the member
  \<^verbatim>\<open>"restaurants"\<close>; with a primary marked trained whose vectorizer was never
  fitted, the body raises and the result is \<^verbatim>\<open>UNCATEGORIZED\<close>.
\<close>

theorem categorize_transaction_result_witness:
  "wf_enum demo_enum \<and>
   fst (categorize_transaction stub_libs demo_enum
          (stub_globals (stub_categorizer False [] 0) None)
          ''STARBUCKS STORE #123'' (Some ''Starbucks'') (Some []))
     \<in> set (enum_values demo_enum) \<and>
   categorize_transaction_try stub_libs demo_enum
       (stub_globals ((stub_categorizer True ''groceries'' (9 / 10))\<lparr>vectorizer := False\<rparr>) None)
       ''coffee'' None None
     = (Inl (LibraryError ''NotFittedError''),
        stub_globals ((stub_categorizer True ''groceries'' (9 / 10))\<lparr>vectorizer := False\<rparr>) None) \<and>
   categorize_transaction stub_libs demo_enum
       (stub_globals ((stub_categorizer True ''groceries'' (9 / 10))\<lparr>vectorizer := False\<rparr>) None)
       ''coffee'' None None
     = (''uncategorized'',
        stub_globals ((stub_categorizer True ''groceries'' (9 / 10))\<lparr>vectorizer := False\<rparr>) None)"
proof -
  let ?g0 = "stub_globals (stub_categorizer False [] 0) None"
  let ?gx = "stub_globals
               ((stub_categorizer True ''groceries'' (9 / 10))\<lparr>vectorizer := False\<rparr>) None"
  have wf: "wf_enum demo_enum"
    by (simp add: wf_enum_def named_members_def demo_enum_def)
  have u: "UNCATEGORIZED demo_enum = ''uncategorized''"
    by (simp add: demo_enum_def)
  have n: "\<not> is_trained (ml_categorizer ?g0)"
    by (simp add: stub_globals_sel stub_categorizer_sel)
  have a: "fst (categorize_transaction stub_libs demo_enum ?g0
                  ''STARBUCKS STORE #123'' (Some ''Starbucks'') (Some []))
             \<in> set (enum_values demo_enum)"
    using categorize_transaction_result [of demo_enum stub_libs ?g0
        "''STARBUCKS STORE #123''" "Some ''Starbucks''" "Some []"] wf n
    by blast
  have t: "categorize_transaction_try stub_libs demo_enum ?gx ''coffee'' None None
             = (Inl (LibraryError ''NotFittedError''), ?gx)"
    by (simp add: categorize_transaction_try_def predict_def stub_globals_def
        stub_categorizer_def stub_libs_def)
  have b: "categorize_transaction stub_libs demo_enum ?gx ''coffee'' None None
             = (''uncategorized'', ?gx)"
    using categorize_transaction_result [of demo_enum stub_libs ?gx "''coffee''" None None] t u
    by simp
  from wf a t b show ?thesis by simp
qed

text \<open>
  C4, as stated: with empty description, empty merchant and empty hints,
  \<^verbatim>\<open>categorize_transaction\<close> returns \<^verbatim>\<open>UNCATEGORIZED\<close> in every classifier state.
  It does not: the function has no case for empty input. A trained primary classifier
  that answers the empty text with a confidence above 0.7 decides the result, and so
  does, behind an untrained primary, a fallback classifier that answers it with a
  confidence above 0.5.
\<close>

theorem empty_input_counterexample:
  "fst (categorize_transaction stub_libs demo_enum
          (stub_globals (stub_categorizer True ''groceries'' (9 / 10)) None)
          [] (Some []) (Some [])) = ''groceries'' \<and>
   fst (categorize_transaction stub_libs demo_enum
          (stub_globals (stub_categorizer False [] 0) None)
          [] (Some []) (Some [])) = ''restaurants'' \<and>
   UNCATEGORIZED demo_enum = ''uncategorized''"
proof -
  have "categorize_transaction stub_libs demo_enum
          (stub_globals (stub_categorizer True ''groceries'' (9 / 10)) None)
          [] (Some []) (Some [])
        = (''groceries'', stub_globals (stub_categorizer True ''groceries'' (9 / 10)) None)"
    by (rule primary_confident [where confidence = "9 / 10"])
       (simp_all add: stub_globals_sel stub_categorizer_sel stub_predict)
  moreover have "fst (categorize_transaction stub_libs demo_enum
          (stub_globals (stub_categorizer False [] 0) None) [] (Some []) (Some []))
        = (if (82 / 100 :: real) > 1 / 2 then ''restaurants'' else UNCATEGORIZED demo_enum)"
    by (rule fallback_gate [where h = "stub_fallback ''restaurants and dining'' (82 / 100)"])
       (simp_all add: stub_globals_sel stub_categorizer_sel fallback_in_use_def stub_init
          stub_hf_predict)
  ultimately show ?thesis by (simp add: demo_enum_def)
qed

text \<open>
  C4, amended: with empty description, empty merchant and empty hints,
  \<^verbatim>\<open>categorize_transaction\<close> returns \<^verbatim>\<open>UNCATEGORIZED\<close> exactly when neither of
  these holds: the primary classifier is trained and predicts, for the empty text, a
  category other than \<^verbatim>\<open>UNCATEGORIZED\<close> with a confidence above 0.7; the primary
  classifier is untrained or predicts with a confidence of at most 0.7, and the fallback
  classifier in use (already constructed, or constructed by this call) predicts a
  category other than \<^verbatim>\<open>UNCATEGORIZED\<close> with a confidence above 0.5.
\<close>

theorem empty_input_uncategorized:
  "fst (categorize_transaction L E g [] (Some []) (Some [])) = UNCATEGORIZED E \<longleftrightarrow>
     \<not> (is_trained (ml_categorizer g) \<and>
        (\<exists>cat confidence. predict L E (ml_categorizer g) [] (Some []) None
            = Inr (cat, confidence) \<and> 7 / 10 < confidence \<and> cat \<noteq> UNCATEGORIZED E)) \<and>
     \<not> ((\<not> is_trained (ml_categorizer g) \<or>
         (\<exists>cat confidence. predict L E (ml_categorizer g) [] (Some []) None
            = Inr (cat, confidence) \<and> confidence \<le> 7 / 10)) \<and>
        (\<exists>h cat confidence. fallback_in_use L g = Some h \<and>
            hf_predict L E h [] (Some []) = Inr (cat, confidence) \<and>
            1 / 2 < confidence \<and> cat \<noteq> UNCATEGORIZED E))"
  by (auto simp: categorize_transaction_def categorize_transaction_try_def fallback_in_use_def
      split: option.splits sum.splits prod.splits if_splits)

text \<open>
  The witness: a trained primary at 0.6 and a constructed fallback at 0.4 give
  \<^verbatim>\<open>UNCATEGORIZED\<close> on the empty text; a trained primary at 0.9 with the category
  \<^verbatim>\<open>"groceries"\<close> does not.
\<close>

theorem empty_input_uncategorized_witness:
  "fst (categorize_transaction stub_libs demo_enum
          (stub_globals (stub_categorizer True ''groceries'' (3 / 5))
             (Some (stub_fallback ''restaurants and dining'' (2 / 5))))
          [] (Some []) (Some [])) = ''uncategorized'' \<and>
   fst (categorize_transaction stub_libs demo_enum
          (stub_globals (stub_categorizer True ''groceries'' (9 / 10)) None)
          [] (Some []) (Some [])) \<noteq> ''uncategorized''"
proof -
  let ?c = "stub_categorizer True ''groceries'' (3 / 5)"
  let ?h = "stub_fallback ''restaurants and dining'' (2 / 5)"
  let ?g = "stub_globals ?c (Some ?h)"
  let ?c9 = "stub_categorizer True ''groceries'' (9 / 10)"
  let ?g9 = "stub_globals ?c9 None"
  have u: "UNCATEGORIZED demo_enum = ''uncategorized''"
    by (simp add: demo_enum_def)
  have p: "predict stub_libs demo_enum ?c [] (Some []) None = Inr (''groceries'', 3 / 5)"
    by (simp add: stub_predict)
  have f: "hf_predict stub_libs demo_enum ?h [] (Some []) = Inr (''restaurants'', 2 / 5)"
    by (simp add: stub_hf_predict)
  have p9: "predict stub_libs demo_enum ?c9 [] (Some []) None = Inr (''groceries'', 9 / 10)"
    by (simp add: stub_predict)
  have n1: "\<not> (is_trained (ml_categorizer ?g) \<and>
        (\<exists>cat confidence. predict stub_libs demo_enum (ml_categorizer ?g) [] (Some []) None
            = Inr (cat, confidence) \<and> 7 / 10 < confidence \<and> cat \<noteq> UNCATEGORIZED demo_enum))"
    using p by (auto simp: stub_globals_sel)
  have n2: "\<not> ((\<not> is_trained (ml_categorizer ?g) \<or>
         (\<exists>cat confidence. predict stub_libs demo_enum (ml_categorizer ?g) [] (Some []) None
            = Inr (cat, confidence) \<and> confidence \<le> 7 / 10)) \<and>
        (\<exists>h cat confidence. fallback_in_use stub_libs ?g = Some h \<and>
            hf_predict stub_libs demo_enum h [] (Some []) = Inr (cat, confidence) \<and>
            1 / 2 < confidence \<and> cat \<noteq> UNCATEGORIZED demo_enum))"
    using f by (auto simp: fallback_in_use_def stub_globals_sel)
  have a: "fst (categorize_transaction stub_libs demo_enum ?g [] (Some []) (Some []))
             = UNCATEGORIZED demo_enum"
    using empty_input_uncategorized [of stub_libs demo_enum ?g] n1 n2 by blast
  have y: "is_trained (ml_categorizer ?g9) \<and>
        (\<exists>cat confidence. predict stub_libs demo_enum (ml_categorizer ?g9) [] (Some []) None
            = Inr (cat, confidence) \<and> 7 / 10 < confidence \<and> cat \<noteq> UNCATEGORIZED demo_enum)"
    using p9 u
    by (auto simp: stub_globals_sel stub_categorizer_sel
        intro!: exI [of _ "''groceries''"] exI [of _ "9 / 10 :: real"])
  have b: "fst (categorize_transaction stub_libs demo_enum ?g9 [] (Some []) (Some []))
             \<noteq> UNCATEGORIZED demo_enum"
    using empty_input_uncategorized [of stub_libs demo_enum ?g9] y by blast
  from a b u show ?thesis by simp
qed

end
